theory Spec2Isabelle
  imports Complex_Main
begin

section \<open>Python values and the builtins the input module calls\<close>

text \<open>
  The module \<^verbatim>\<open>bin/input_module_lastpass_event_reporting.py\<close> dispatches on the run-time
  shape of its time values, so values keep their Python type. A naive \<^verbatim>\<open>datetime\<close> is
  its number of microseconds since 1970-01-01 00:00:00 on the naive time line, a
  \<^verbatim>\<open>timedelta\<close> a number of microseconds, a \<^verbatim>\<open>float\<close> an exact rational (binary
  rounding, \<^verbatim>\<open>inf\<close> and \<^verbatim>\<open>nan\<close> are outside the model), a \<^verbatim>\<open>dict\<close> an association
  list in insertion order.
\<close>

datatype pyval =
    PNone
  | PBool bool
  | PInt int
  | PFloat rat
  | PStr string
  | PDatetime int
  | PTimedelta int
  | PList "pyval list"
  | PDict "(string \<times> pyval) list"

text \<open>
  Exceptions. \<open>HostError b\<close> is an exception raised by the host helper (the checkpoint
  store); \<open>b\<close> tells whether the exception object has a \<^verbatim>\<open>message\<close> attribute. The
  builtin exception classes of Python 3 have none.
\<close>

datatype exn =
    TypeError
  | ValueError
  | KeyError
  | AttributeError
  | OverflowError
  | IOError
  | PlainException
  | SystemExit int
  | HostError bool

fun has_message :: "exn \<Rightarrow> bool" where
  "has_message (HostError b) = b"
| "has_message _ = False"

definition bind_exn :: "exn + 'a \<Rightarrow> ('a \<Rightarrow> exn + 'b) \<Rightarrow> exn + 'b" where
  "bind_exn m f = (case m of Inl e \<Rightarrow> Inl e | Inr x \<Rightarrow> f x)"

definition LP_CHECKPOINT_KEY :: string where "LP_CHECKPOINT_KEY = ''LastPass_reporting''"
definition STR_TSTART :: string where "STR_TSTART = ''time_start''"
definition STR_TEND :: string where "STR_TEND = ''time_end''"
definition STR_TCURR :: string where "STR_TCURR = ''time_curr''"

subsection \<open>Decimal text\<close>

definition is_digit :: "char \<Rightarrow> bool" where
  "is_digit c = (c \<in> set ''0123456789'')"

definition is_space :: "char \<Rightarrow> bool" where
  "is_space c = (c \<in> {CHR '' '', CHR 0x09, CHR 0x0A, CHR 0x0B, CHR 0x0C, CHR 0x0D})"

text \<open>The value of a decimal digit: its place in the row of digits.\<close>

definition digit_val :: "char \<Rightarrow> nat" where
  "digit_val c = length (takeWhile (\<lambda>d. d \<noteq> c) ''0123456789'')"

definition int_of_digits :: "string \<Rightarrow> int" where
  "int_of_digits ds = foldl (\<lambda>a c. 10 * a + int (digit_val c)) 0 ds"

definition digit_char :: "int \<Rightarrow> char" where
  "digit_char d = ''0123456789'' ! nat (d mod 10)"

text \<open>The decimal digits of a number that is not negative.\<close>

function show_nat :: "int \<Rightarrow> string" where
  "show_nat n = (if n < 10 then [digit_char n] else show_nat (n div 10) @ [digit_char (n mod 10)])"
  by pat_completeness auto
termination
  by (relation "measure nat") auto

definition show_int :: "int \<Rightarrow> string" where
  "show_int i = (if i < 0 then CHR ''-'' # show_nat (- i) else show_nat i)"

definition pad_left :: "nat \<Rightarrow> string \<Rightarrow> string" where
  "pad_left w s = replicate (w - length s) CHR ''0'' @ s"

definition strip :: "string \<Rightarrow> string" where
  "strip s = rev (dropWhile is_space (rev (dropWhile is_space s)))"

definition split_sign :: "string \<Rightarrow> bool \<times> string" where
  "split_sign s =
     (case s of
        [] \<Rightarrow> (False, [])
      | c # r \<Rightarrow> if c = CHR ''-'' then (True, r) else if c = CHR ''+'' then (False, r)
                 else (False, s))"

text \<open>
  \<^verbatim>\<open>int(s)\<close> for a string: surrounding white space, an optional sign, decimal
  digits; anything else is a ValueError. (Digit grouping with underscores and
  non-ASCII digits are outside the model.)
\<close>

definition int_of_string :: "string \<Rightarrow> exn + int" where
  "int_of_string s =
     (case split_sign (strip s) of
        (neg, ds) \<Rightarrow>
          if ds \<noteq> [] \<and> list_all is_digit ds
          then Inr (if neg then - int_of_digits ds else int_of_digits ds)
          else Inl ValueError)"

text \<open>
  \<^verbatim>\<open>float(s)\<close> for a string: surrounding white space, an optional sign, digits with
  an optional fraction. (Exponents, \<^verbatim>\<open>inf\<close>, \<^verbatim>\<open>nan\<close> and underscores are outside the
  model.)
\<close>

definition float_of_string :: "string \<Rightarrow> exn + rat" where
  "float_of_string s =
     (case split_sign (strip s) of
        (neg, body) \<Rightarrow>
          let ip = takeWhile is_digit body;
              rest = dropWhile is_digit body;
              sgn = (if neg then - 1 else 1 :: rat)
          in (case rest of
                [] \<Rightarrow> if ip \<noteq> [] then Inr (sgn * of_int (int_of_digits ip)) else Inl ValueError
              | c # fp \<Rightarrow>
                  if c = CHR ''.'' \<and> list_all is_digit fp \<and> (ip \<noteq> [] \<or> fp \<noteq> [])
                  then Inr (sgn * (of_int (int_of_digits ip)
                                   + of_int (int_of_digits fp) / 10 ^ length fp))
                  else Inl ValueError))"

text \<open>
  \<^verbatim>\<open>str(x)\<close> for a float, at the resolution of \<^verbatim>\<open>datetime\<close>: the decimal expansion
  cut after six fractional digits, trailing zeros dropped, at least one digit kept.
  (Python switches to the exponent form from \<^verbatim>\<open>1e16\<close> on and below \<^verbatim>\<open>1e-4\<close>; values of
  that size are outside the model.)
\<close>

definition frac_digits :: "int \<Rightarrow> string" where
  "frac_digits us =
     (let ds = rev (dropWhile (\<lambda>c. c = CHR ''0'') (rev (pad_left 6 (show_nat us))))
      in if ds = [] then ''0'' else ds)"

definition float_repr :: "rat \<Rightarrow> string" where
  "float_repr q =
     (let a = \<bar>q\<bar>;
          ip = \<lfloor>a\<rfloor>;
          us = \<lfloor>(a - of_int ip) * 1000000\<rfloor>
      in (if q < 0 then ''-'' else []) @ show_nat ip @ ''.'' @ frac_digits us)"

subsection \<open>The proleptic Gregorian calendar of \<^verbatim>\<open>datetime\<close>\<close>

definition USEC :: int where "USEC = 1000000"
definition DAY_US :: int where "DAY_US = 86400000000"

definition days_from_civil :: "int \<Rightarrow> int \<Rightarrow> int \<Rightarrow> int" where
  "days_from_civil y m d =
     (let y' = (if m \<le> 2 then y - 1 else y);
          era = y' div 400;
          yoe = y' - era * 400;
          mp = (m + 9) mod 12;
          doy = (153 * mp + 2) div 5 + d - 1;
          doe = yoe * 365 + yoe div 4 - yoe div 100 + doy
      in era * 146097 + doe - 719468)"

definition civil_from_days :: "int \<Rightarrow> int \<times> int \<times> int" where
  "civil_from_days z =
     (let z' = z + 719468;
          era = z' div 146097;
          doe = z' - era * 146097;
          yoe = (doe - doe div 1460 + doe div 36524 - doe div 146096) div 365;
          doy = doe - (365 * yoe + yoe div 4 - yoe div 100);
          mp = (5 * doy + 2) div 153;
          d = doy - (153 * mp + 2) div 5 + 1;
          m = (if mp < 10 then mp + 3 else mp - 9);
          y = yoe + era * 400
      in (if m \<le> 2 then y + 1 else y, m, d))"

definition is_leap :: "int \<Rightarrow> bool" where
  "is_leap y = (y mod 4 = 0 \<and> (y mod 100 \<noteq> 0 \<or> y mod 400 = 0))"

definition days_in_month :: "int \<Rightarrow> int \<Rightarrow> int" where
  "days_in_month y m =
     (if m = 2 then (if is_leap y then 29 else 28)
      else if m \<in> {4, 6, 9, 11} then 30 else 31)"

text \<open>The first and the last instant a \<^verbatim>\<open>datetime\<close> can hold (years 1 to 9999).\<close>

definition DT_MIN :: int where "DT_MIN = days_from_civil 1 1 1 * DAY_US"
definition DT_MAX :: int where "DT_MAX = days_from_civil 10000 1 1 * DAY_US - 1"

definition show2 :: "int \<Rightarrow> string" where
  "show2 n = pad_left 2 (show_nat n)"

text \<open>
  \<^verbatim>\<open>dt.strftime('%Y-%m-%d %H:%M:%S')\<close>: the sub-second part is dropped. (The year is
  padded to four digits; the C library leaves years below 1000 unpadded.)
\<close>

definition strftime_lp :: "int \<Rightarrow> string" where
  "strftime_lp dt =
     (case civil_from_days (dt div DAY_US) of
        (y, m, d) \<Rightarrow>
          let s = (dt mod DAY_US) div USEC
          in pad_left 4 (show_nat y) @ ''-'' @ show2 m @ ''-'' @ show2 d @ '' ''
             @ show2 (s div 3600) @ '':'' @ show2 (s mod 3600 div 60) @ '':'' @ show2 (s mod 60))"

text \<open>\<^verbatim>\<open>str(dt)\<close>: as above, followed by the six-digit fraction when it is not zero.\<close>

definition str_datetime :: "int \<Rightarrow> string" where
  "str_datetime dt =
     strftime_lp dt
     @ (if dt mod USEC = 0 then [] else ''.'' @ pad_left 6 (show_nat (dt mod USEC)))"

text \<open>
  \<^verbatim>\<open>datetime.strptime(s, '%Y-%m-%d %H:%M:%S')\<close>. The year has four digits, every
  other field one or two; the day may also be written as a blank and one digit from 1
  to 9; the blank of the format matches a run of white space; the whole text must be
  consumed; the date must exist. \<open>None\<close> is the ValueError. (Digits other than the ten
  ASCII ones are outside the model.)
\<close>

definition take_field :: "nat \<Rightarrow> nat \<Rightarrow> string \<Rightarrow> (int \<times> string) option" where
  "take_field lo hi s =
     (let ds = takeWhile is_digit s
      in if lo \<le> length ds \<and> length ds \<le> hi
         then Some (int_of_digits ds, dropWhile is_digit s) else None)"

definition take_day :: "string \<Rightarrow> (int \<times> string) option" where
  "take_day s =
     (case s of
        [] \<Rightarrow> None
      | x # r \<Rightarrow>
          if x = CHR '' ''
          then (case take_field 1 1 r of
                  None \<Rightarrow> None
                | Some (d, r') \<Rightarrow> if 1 \<le> d then Some (d, r') else None)
          else take_field 1 2 s)"

definition expect_char :: "char \<Rightarrow> string \<Rightarrow> string option" where
  "expect_char c s = (case s of [] \<Rightarrow> None | x # r \<Rightarrow> if x = c then Some r else None)"

definition expect_space :: "string \<Rightarrow> string option" where
  "expect_space s =
     (case s of [] \<Rightarrow> None | x # r \<Rightarrow> if is_space x then Some (dropWhile is_space r) else None)"

definition strptime_lp :: "string \<Rightarrow> int option" where
  "strptime_lp s =
     Option.bind (take_field 4 4 s) (\<lambda>(y, s1).
     Option.bind (expect_char CHR ''-'' s1) (\<lambda>s2.
     Option.bind (take_field 1 2 s2) (\<lambda>(m, s3).
     Option.bind (expect_char CHR ''-'' s3) (\<lambda>s4.
     Option.bind (take_day s4) (\<lambda>(d, s5).
     Option.bind (expect_space s5) (\<lambda>s6.
     Option.bind (take_field 1 2 s6) (\<lambda>(H, s7).
     Option.bind (expect_char CHR '':'' s7) (\<lambda>s8.
     Option.bind (take_field 1 2 s8) (\<lambda>(M, s9).
     Option.bind (expect_char CHR '':'' s9) (\<lambda>s10.
     Option.bind (take_field 1 2 s10) (\<lambda>(S, s11).
       if s11 = [] \<and> 1 \<le> y \<and> 1 \<le> m \<and> m \<le> 12 \<and> 1 \<le> d \<and> d \<le> days_in_month y m
          \<and> H \<le> 23 \<and> M \<le> 59 \<and> S \<le> 59
       then Some ((days_from_civil y m d * 86400 + H * 3600 + M * 60 + S) * USEC)
       else None)))))))))))"

subsection \<open>Truth value, text, numeric conversion\<close>

fun py_truthy :: "pyval \<Rightarrow> bool" where
  "py_truthy PNone = False"
| "py_truthy (PBool b) = b"
| "py_truthy (PInt i) = (i \<noteq> 0)"
| "py_truthy (PFloat q) = (q \<noteq> 0)"
| "py_truthy (PStr s) = (s \<noteq> [])"
| "py_truthy (PDatetime dt) = True"
| "py_truthy (PTimedelta d) = (d \<noteq> 0)"
| "py_truthy (PList xs) = (xs \<noteq> [])"
| "py_truthy (PDict kvs) = (kvs \<noteq> [])"

fun join_comma :: "string list \<Rightarrow> string" where
  "join_comma [] = []"
| "join_comma [x] = x"
| "join_comma (x # y # ys) = x @ '', '' @ join_comma (y # ys)"

definition quote :: "string \<Rightarrow> string" where
  "quote s = [CHR 0x27] @ s @ [CHR 0x27]"

text \<open>
  \<^verbatim>\<open>repr(x)\<close>. Escapes inside string literals are not modelled, and the constructor
  forms of \<^verbatim>\<open>datetime\<close> and \<^verbatim>\<open>timedelta\<close> are abbreviated; the module never formats
  those inside a container.
\<close>

primrec py_repr :: "pyval \<Rightarrow> string" where
  "py_repr PNone = ''None''"
| "py_repr (PBool b) = (if b then ''True'' else ''False'')"
| "py_repr (PInt i) = show_int i"
| "py_repr (PFloat q) = float_repr q"
| "py_repr (PStr s) = quote s"
| "py_repr (PDatetime dt) = ''datetime.datetime('' @ str_datetime dt @ '')''"
| "py_repr (PTimedelta d) = ''datetime.timedelta(microseconds='' @ show_int d @ '')''"
| "py_repr (PList xs) = ''['' @ join_comma (map py_repr xs) @ '']''"
| "py_repr (PDict kvs) =
     ''{'' @ join_comma (map (\<lambda>(k, r). quote k @ '': '' @ r) (map (map_prod id py_repr) kvs)) @ ''}''"

text \<open>\<^verbatim>\<open>str(x)\<close>: a string is itself, a datetime prints as text, the rest as \<^verbatim>\<open>repr\<close>.\<close>

definition py_str :: "pyval \<Rightarrow> string" where
  "py_str v = (case v of PStr s \<Rightarrow> s | PDatetime dt \<Rightarrow> str_datetime dt | _ \<Rightarrow> py_repr v)"

text \<open>\<^verbatim>\<open>int(x)\<close>: a float is truncated towards zero.\<close>

fun py_int :: "pyval \<Rightarrow> exn + int" where
  "py_int (PInt i) = Inr i"
| "py_int (PBool b) = Inr (if b then 1 else 0)"
| "py_int (PFloat q) = Inr (if 0 \<le> q then \<lfloor>q\<rfloor> else - \<lfloor>- q\<rfloor>)"
| "py_int (PStr s) = int_of_string s"
| "py_int _ = Inl TypeError"

fun py_float :: "pyval \<Rightarrow> exn + rat" where
  "py_float (PInt i) = Inr (of_int i)"
| "py_float (PBool b) = Inr (if b then 1 else 0)"
| "py_float (PFloat q) = Inr q"
| "py_float (PStr s) = float_of_string s"
| "py_float _ = Inl TypeError"

text \<open>\<^verbatim>\<open>d.get(k)\<close> and \<^verbatim>\<open>d[k]\<close>; only a dict has \<^verbatim>\<open>get\<close>.\<close>

fun py_get :: "pyval \<Rightarrow> string \<Rightarrow> exn + pyval" where
  "py_get (PDict kvs) k = Inr (case map_of kvs k of None \<Rightarrow> PNone | Some v \<Rightarrow> v)"
| "py_get _ k = Inl AttributeError"

fun py_getitem :: "pyval \<Rightarrow> string \<Rightarrow> exn + pyval" where
  "py_getitem (PDict kvs) k = (case map_of kvs k of None \<Rightarrow> Inl KeyError | Some v \<Rightarrow> Inr v)"
| "py_getitem _ k = Inl TypeError"

text \<open>\<^verbatim>\<open>d[k] = v\<close> on a dict: an existing key keeps its place.\<close>

fun dict_set :: "string \<Rightarrow> pyval \<Rightarrow> (string \<times> pyval) list \<Rightarrow> (string \<times> pyval) list" where
  "dict_set k v [] = [(k, v)]"
| "dict_set k v ((k', v') # kvs) = (if k' = k then (k, v) # kvs else (k', v') # dict_set k v kvs)"

text \<open>
  Subtraction and \<^verbatim>\<open>>\<close> as far as the module uses them: the right operand of its
  subtractions is a datetime or None, and it compares a difference with the integer 0.
\<close>

fun py_sub :: "pyval \<Rightarrow> pyval \<Rightarrow> exn + pyval" where
  "py_sub (PDatetime a) (PDatetime b) = Inr (PTimedelta (a - b))"
| "py_sub (PDatetime a) (PTimedelta d) = Inr (PDatetime (a - d))"
| "py_sub (PTimedelta a) (PTimedelta b) = Inr (PTimedelta (a - b))"
| "py_sub (PInt a) (PInt b) = Inr (PInt (a - b))"
| "py_sub _ _ = Inl TypeError"

fun py_gt :: "pyval \<Rightarrow> pyval \<Rightarrow> exn + bool" where
  "py_gt (PInt a) (PInt b) = Inr (a > b)"
| "py_gt (PFloat a) (PInt b) = Inr (a > of_int b)"
| "py_gt (PTimedelta a) (PTimedelta b) = Inr (a > b)"
| "py_gt (PDatetime a) (PDatetime b) = Inr (a > b)"
| "py_gt _ _ = Inl TypeError"

subsection \<open>Epoch seconds and naive local time\<close>

text \<open>
  The host's zone is taken as UTC: \<^verbatim>\<open>fromtimestamp\<close> and \<^verbatim>\<open>timestamp\<close> convert
  between epoch seconds and the naive microsecond count without an offset.
  \<^verbatim>\<open>fromtimestamp\<close> rounds half to even and fails outside the years 1 to 9999. (Every
  such failure is an OverflowError here; CPython raises ValueError or OSError for
  some, and also refuses instants within a day of either end of the range. The callers
  catch every kind alike.)
\<close>

definition round_half_even :: "rat \<Rightarrow> int" where
  "round_half_even q =
     (let f = \<lfloor>q\<rfloor>; r = q - of_int f
      in if r < 1 / 2 then f else if 1 / 2 < r then f + 1 else if even f then f else f + 1)"

definition fromtimestamp :: "rat \<Rightarrow> exn + int" where
  "fromtimestamp x =
     (let us = round_half_even (x * 1000000)
      in if DT_MIN \<le> us \<and> us \<le> DT_MAX then Inr us else Inl OverflowError)"

definition timestamp :: "int \<Rightarrow> rat" where
  "timestamp dt = of_int dt / 1000000"

text \<open>\<^verbatim>\<open>dt.strftime('%s.%f')\<close>: epoch seconds, a dot, six digits of microseconds.\<close>

definition strftime_epoch :: "int \<Rightarrow> string" where
  "strftime_epoch dt = show_int (dt div USEC) @ ''.'' @ pad_left 6 (show_nat (dt mod USEC))"

section \<open>The input module\<close>

subsection \<open>What a run reads and what it leaves behind\<close>

record event =
  ev_data :: "(string \<times> pyval) list"
  ev_time :: pyval

text \<open>
  What a run does to the outside, in the order it does it: \<open>Emitted e\<close> is a call of
  \<^verbatim>\<open>ew.write_event\<close>, \<open>Stored p\<close> a call of \<^verbatim>\<open>helper.save_check_point\<close> that stored the
  payload \<open>p\<close>.
\<close>

datatype action = Emitted event | Stored pyval

text \<open>
  \<open>journal\<close>: the actions so far, oldest first. \<open>ticks\<close>: how many times
  \<^verbatim>\<open>datetime.datetime.now()\<close> has been read.
\<close>

record world =
  journal :: "action list"
  ticks :: nat

fun emitted_of :: "action list \<Rightarrow> event list" where
  "emitted_of [] = []"
| "emitted_of (Emitted e # acts) = e # emitted_of acts"
| "emitted_of (Stored p # acts) = emitted_of acts"

fun stored_of :: "action list \<Rightarrow> pyval list" where
  "stored_of [] = []"
| "stored_of (Emitted e # acts) = stored_of acts"
| "stored_of (Stored p # acts) = p # stored_of acts"

text \<open>The events handed to the event writer, and the payloads stored, each in order.\<close>

definition events :: "world \<Rightarrow> event list" where
  "events w = emitted_of (journal w)"

definition writes :: "world \<Rightarrow> pyval list" where
  "writes w = stored_of (journal w)"

record response =
  status :: string
  data :: "(string \<times> (string \<times> pyval) list) list"

text \<open>
  The outcome of \<^verbatim>\<open>requests.post\<close>: it raises, or gives a response with its status
  code, its text and what \<^verbatim>\<open>.json()\<close> returns or raises. A decoded body has the shape
  of the vendor protocol: a \<^verbatim>\<open>status\<close> string and \<^verbatim>\<open>data\<close>, a mapping from event id to
  the event's fields.
\<close>

datatype http = PostRaises exn | Response int string "exn + response"

text \<open>
  The collaborators of one run: \<open>clock k\<close> is the \<open>k\<close>-th reading of
  \<^verbatim>\<open>datetime.datetime.now()\<close>; \<open>stored\<close> is what
  \<^verbatim>\<open>helper.get_check_point(LP_CHECKPOINT_KEY)\<close> returns or raises; \<open>cfg_time_start\<close> is
  \<^verbatim>\<open>helper.get_global_setting('time_start')\<close>; \<open>post\<close> answers the request for a
  window's \<^verbatim>\<open>from\<close> and \<^verbatim>\<open>to\<close>; \<open>put\<close> is the outcome of
  \<^verbatim>\<open>helper.save_check_point\<close> for a payload (\<open>None\<close>: stored). Logging calls have
  no effect on the run and are left out.
\<close>

record env =
  clock :: "nat \<Rightarrow> int"
  stored :: "exn + pyval"
  cfg_time_start :: pyval
  post :: "string \<Rightarrow> string \<Rightarrow> http"
  put :: "pyval \<Rightarrow> exn option"

definition tick :: "world \<Rightarrow> world" where
  "tick w = w\<lparr>ticks := Suc (ticks w)\<rparr>"

subsection \<open>Time value checks (lines 74 to 152)\<close>

definition get_time_lp :: "pyval \<Rightarrow> exn + string" where
  "get_time_lp time_val =
     (case time_val of
        PDatetime dt \<Rightarrow> Inr (strftime_lp dt)
      | _ \<Rightarrow> bind_exn (py_int time_val) (\<lambda>i.
               bind_exn (fromtimestamp (of_int i)) (\<lambda>dt. Inr (strftime_lp dt))))"

definition check_datetime :: "pyval \<Rightarrow> bool" where
  "check_datetime val = (case val of PDatetime dt \<Rightarrow> True | _ \<Rightarrow> False)"

definition check_digit :: "pyval \<Rightarrow> bool" where
  "check_digit val = (case py_int val of Inr check \<Rightarrow> True | Inl e \<Rightarrow> False)"

definition check_float :: "pyval \<Rightarrow> bool" where
  "check_float val = (case float_of_string (py_str val) of Inr f \<Rightarrow> f > 0 | Inl e \<Rightarrow> False)"

text \<open>
  The handlers of \<open>prepare_time_value\<close>, \<open>save_checkpoint\<close> and the first one of
  \<open>get_checkpoint\<close> format \<^verbatim>\<open>e.message\<close>: reading that attribute raises
  AttributeError unless the caught exception has it.
\<close>

definition read_message :: "exn \<Rightarrow> exn + unit" where
  "read_message e = (if has_message e then Inr () else Inl AttributeError)"

definition py_timestamp :: "pyval \<Rightarrow> exn + pyval" where
  "py_timestamp val =
     (case val of PDatetime dt \<Rightarrow> Inr (PFloat (timestamp dt)) | _ \<Rightarrow> Inl AttributeError)"

definition prepare_time_value :: "pyval \<Rightarrow> string \<Rightarrow> exn + pyval" where
  "prepare_time_value val field_name =
     (case (if check_digit val then Inr val
            else if check_datetime val then py_timestamp val
            else bind_exn (float_of_string (py_str val)) (\<lambda>f.
                   if f \<noteq> 0 then Inr (PFloat f) else Inl PlainException)) of
        Inl e \<Rightarrow> bind_exn (read_message e) (\<lambda>_. Inl IOError)
      | Inr v \<Rightarrow> Inr (PStr (py_str v)))"

subsection \<open>The checkpoint store adapter (lines 155 to 215)\<close>

text \<open>Lines 169 to 171: the payload built from the three prepared values.\<close>

definition checkpoint_payload :: "pyval \<Rightarrow> pyval \<Rightarrow> pyval \<Rightarrow> exn + pyval" where
  "checkpoint_payload time_curr time_start time_end =
     bind_exn (prepare_time_value time_curr STR_TCURR) (\<lambda>c.
     bind_exn (prepare_time_value time_start STR_TSTART) (\<lambda>s.
     bind_exn (prepare_time_value time_end STR_TEND) (\<lambda>e.
       Inr (PDict [(STR_TCURR, c), (STR_TSTART, s), (STR_TEND, e)]))))"

definition save_checkpoint ::
  "(pyval \<Rightarrow> exn option) \<Rightarrow> pyval \<Rightarrow> pyval \<Rightarrow> pyval \<Rightarrow> world \<Rightarrow> exn option \<times> world" where
  "save_checkpoint save_check_point time_curr time_start time_end w =
     (case bind_exn (checkpoint_payload time_curr time_start time_end) (\<lambda>p.
             case save_check_point p of None \<Rightarrow> Inr p | Some e \<Rightarrow> Inl e) of
        Inl e \<Rightarrow> (case read_message e of Inl e' \<Rightarrow> (Some e', w) | Inr _ \<Rightarrow> (Some IOError, w))
      | Inr p \<Rightarrow> (None, w\<lparr>journal := journal w @ [Stored p]\<rparr>))"

text \<open>Lines 199 to 205: the three field checks inside the \<^verbatim>\<open>try\<close>.\<close>

definition checkpoint_fields :: "pyval \<Rightarrow> exn + unit" where
  "checkpoint_fields state_payload =
     bind_exn (py_get state_payload STR_TCURR) (\<lambda>c.
     bind_exn (if py_truthy c then prepare_time_value c STR_TCURR else Inr c) (\<lambda>r1.
     if \<not> py_truthy r1 then Inl PlainException else
     bind_exn (py_getitem state_payload STR_TSTART) (\<lambda>s.
     bind_exn (if py_truthy s then prepare_time_value s STR_TSTART else Inr s) (\<lambda>r2.
     if \<not> py_truthy r2 then Inl PlainException else
     bind_exn (py_getitem state_payload STR_TEND) (\<lambda>e.
     bind_exn (if py_truthy e then prepare_time_value e STR_TEND else Inr e) (\<lambda>r3.
     if \<not> py_truthy r3 then Inl PlainException else Inr ()))))))"

text \<open>
  \<open>get_checkpoint\<close>. The handler of the field checks (line 208) formats
  \<^verbatim>\<open>state_payload.get(...)\<close> three times before it returns None; after successful checks
  line 215 returns None as well.
\<close>

definition get_checkpoint :: "exn + pyval \<Rightarrow> exn + pyval" where
  "get_checkpoint get_check_point =
     (case get_check_point of
        Inl e \<Rightarrow> bind_exn (read_message e) (\<lambda>_. Inr PNone)
      | Inr state_payload \<Rightarrow>
          if check_digit state_payload \<or> check_float state_payload
          then Inr (PDict [(STR_TCURR, PNone), (STR_TSTART, state_payload), (STR_TEND, PNone)])
          else (case checkpoint_fields state_payload of
                  Inl e \<Rightarrow>
                    bind_exn (py_get state_payload STR_TCURR) (\<lambda>_.
                    bind_exn (py_get state_payload STR_TSTART) (\<lambda>_.
                    bind_exn (py_get state_payload STR_TEND) (\<lambda>_. Inr PNone)))
                | Inr _ \<Rightarrow> Inr PNone))"

subsection \<open>Reading a time value (lines 218 to 266)\<close>

definition parse_time :: "pyval \<Rightarrow> exn + int" where
  "parse_time time_val =
     (if check_digit time_val then bind_exn (py_int time_val) (\<lambda>i. fromtimestamp (of_int i))
      else if check_float time_val then bind_exn (py_float time_val) fromtimestamp
      else (case strptime_lp (py_str time_val) of None \<Rightarrow> Inl ValueError | Some dt \<Rightarrow> Inr dt))"

definition get_time_dt :: "(nat \<Rightarrow> int) \<Rightarrow> pyval \<Rightarrow> world \<Rightarrow> pyval \<times> world" where
  "get_time_dt now time_val w =
     (if \<not> py_truthy time_val then (PNone, w)
      else (case parse_time time_val of
              Inl e \<Rightarrow> (PNone, w)
            | Inr time_dt \<Rightarrow>
                let diff_days = (now (ticks w) - time_dt) div DAY_US
                in (if diff_days > 365 * 4 \<or> diff_days < 0 then PNone else PDatetime time_dt,
                    tick w)))"

definition convert_time :: "pyval \<Rightarrow> pyval" where
  "convert_time time_val = (case parse_time time_val of Inl e \<Rightarrow> PNone | Inr temp \<Rightarrow> PDatetime temp)"

subsection \<open>The window planner (lines 405 to 439 of \<open>collect_events\<close>)\<close>

definition time_default :: "int \<Rightarrow> int" where
  "time_default time_now = (time_now - DAY_US) - (time_now - DAY_US) mod USEC"

definition choose_start ::
  "(nat \<Rightarrow> int) \<Rightarrow> pyval \<Rightarrow> pyval \<Rightarrow> int \<Rightarrow> world \<Rightarrow> exn + pyval \<times> world" where
  "choose_start now time_start payload_checkpoint time_now w =
     (if \<not> py_truthy time_start \<and> \<not> py_truthy payload_checkpoint
      then Inr (PDatetime (time_default time_now), w)
      else if \<not> py_truthy time_start \<and> py_truthy payload_checkpoint
      then Inr (get_time_dt now payload_checkpoint w)
      else if py_truthy time_start \<and> \<not> py_truthy payload_checkpoint
      then Inr (time_start, w)
      else if py_truthy time_start \<and> py_truthy payload_checkpoint
      then bind_exn (py_sub payload_checkpoint time_start) (\<lambda>d.
           bind_exn (py_gt d (PInt 0)) (\<lambda>newer.
             if newer
             then bind_exn (py_get payload_checkpoint STR_TSTART) (\<lambda>v.
                    Inr (get_time_dt now v w))
             else Inr (PDatetime (time_default time_now), w)))
      else Inr (PDatetime (time_default time_now), w))"

text \<open>\<^verbatim>\<open>range(0, stop, step)\<close> for a positive step.\<close>

definition py_range :: "int \<Rightarrow> int \<Rightarrow> int list" where
  "py_range stop step = map (\<lambda>k. int k * step) [0 ..< nat ((stop + step - 1) div step)]"

definition day_incr :: "int \<Rightarrow> int" where
  "day_incr diff_days = (if diff_days < 7 then 1 else 3)"

text \<open>The \<open>start\<close> and \<open>end\<close> of every iteration of the loop of line 436.\<close>

definition windows :: "int \<Rightarrow> int \<Rightarrow> (int \<times> int) list" where
  "windows time_start time_now =
     (let diff_days = (time_now - time_start) div DAY_US
      in map (\<lambda>i. let start = time_start + i * DAY_US;
                      stop = start + day_incr diff_days * DAY_US - USEC
                  in (start, if time_now < stop then time_now else stop))
             (py_range (diff_days + 1) (day_incr diff_days)))"

text \<open>Line 429 fails when the chosen start is None.\<close>

definition plan_windows :: "pyval \<Rightarrow> int \<Rightarrow> exn + (int \<times> int) list" where
  "plan_windows time_start time_now =
     bind_exn (py_sub (PDatetime time_now) time_start) (\<lambda>diff.
       case time_start of
         PDatetime ts \<Rightarrow> Inr (windows ts time_now)
       | _ \<Rightarrow> Inl TypeError)"

subsection \<open>The collection driver (lines 440 to 500 of \<open>collect_events\<close>)\<close>

text \<open>\<^verbatim>\<open>'OK' in s\<close> for a string: a substring test.\<close>

fun str_contains :: "string \<Rightarrow> string \<Rightarrow> bool" where
  "str_contains sub [] = (sub = [])"
| "str_contains sub (c # cs) = (take (length sub) (c # cs) = sub \<or> str_contains sub cs)"

text \<open>
  Lines 467 to 485, the first part of the loop body: the enriched copy of one record
  is handed to the event writer. The result is the record's \<open>event_time\<close>.
\<close>

definition emit_record ::
  "env \<Rightarrow> string \<times> (string \<times> pyval) list \<Rightarrow> world \<Rightarrow> exn + pyval \<times> world" where
  "emit_record E rec w =
     (let ev_payload = dict_set ''event_id'' (PStr (fst rec)) (snd rec)
      in bind_exn (py_getitem (PDict ev_payload) ''Time'') (\<lambda>tv.
           let parsed = convert_time tv;
               event_time = (case parsed of
                               PDatetime dt \<Rightarrow> PStr (strftime_epoch dt)
                             | _ \<Rightarrow> PFloat (timestamp (clock E (ticks w))));
               w1 = (case parsed of PDatetime dt \<Rightarrow> w | _ \<Rightarrow> tick w);
               ev_payload' = dict_set ''time_collected''
                               (PFloat (timestamp (clock E (ticks w1)))) ev_payload
           in Inr (event_time,
                   (tick w1)\<lparr>journal := journal w1
                                        @ [Emitted \<lparr>ev_data = ev_payload', ev_time = event_time\<rparr>]\<rparr>)))"

text \<open>The loop of line 465 over the entries of \<^verbatim>\<open>resp_ev_json['data']\<close>.\<close>

fun emit_records ::
  "env \<Rightarrow> pyval \<Rightarrow> pyval \<Rightarrow> (string \<times> (string \<times> pyval) list) list \<Rightarrow> nat \<Rightarrow> pyval \<Rightarrow> world
     \<Rightarrow> exn option \<times> pyval \<times> world" where
  "emit_records E time_start time_now [] chk_ptr event_time w = (None, event_time, w)"
| "emit_records E time_start time_now (rec # rest) chk_ptr event_time w =
     (case emit_record E rec w of
        Inl e \<Rightarrow> (Some e, event_time, w)
      | Inr (event_time', w') \<Rightarrow>
          if Suc chk_ptr mod 1000 = 0
          then (case save_checkpoint (put E) event_time' time_start time_now w' of
                  (Some e, w'') \<Rightarrow> (Some e, event_time', w'')
                | (None, w'') \<Rightarrow>
                    emit_records E time_start time_now rest (Suc chk_ptr) event_time' w'')
          else emit_records E time_start time_now rest (Suc chk_ptr) event_time' w')"

text \<open>One iteration of the loop of line 436, for the window \<open>(start, stop)\<close>.\<close>

definition collect_window ::
  "env \<Rightarrow> pyval \<Rightarrow> pyval \<Rightarrow> int \<times> int \<Rightarrow> world \<Rightarrow> exn option \<times> world" where
  "collect_window E time_start time_now win w =
     (case bind_exn (get_time_lp (PDatetime (fst win))) (\<lambda>from_lp.
           bind_exn (get_time_lp (PDatetime (snd win))) (\<lambda>to_lp. Inr (post E from_lp to_lp))) of
        Inl e \<Rightarrow> (Some e, w)
      | Inr (PostRaises e) \<Rightarrow> (Some e, w)
      | Inr (Response status_code text js) \<Rightarrow>
          (case js of
             Inl e \<Rightarrow> (Some e, w)
           | Inr resp_ev_json \<Rightarrow>
               if \<not> str_contains ''OK'' (status resp_ev_json) then (Some (SystemExit 1), w)
               else (case emit_records E time_start time_now (data resp_ev_json) 0 PNone w of
                       (Some e, event_time, w') \<Rightarrow> (Some e, w')
                     | (None, event_time, w') \<Rightarrow>
                         if py_truthy event_time
                         then save_checkpoint (put E) event_time time_start time_now w'
                         else (None, w'))))"

fun collect_loop ::
  "env \<Rightarrow> pyval \<Rightarrow> pyval \<Rightarrow> (int \<times> int) list \<Rightarrow> world \<Rightarrow> exn option \<times> world" where
  "collect_loop E time_start time_now [] w = (None, w)"
| "collect_loop E time_start time_now (win # rest) w =
     (case collect_window E time_start time_now win w of
        (Some e, w') \<Rightarrow> (Some e, w')
      | (None, w') \<Rightarrow> collect_loop E time_start time_now rest w')"

text \<open>\<open>collect_events\<close> from line 380 on.\<close>

definition collect_events :: "env \<Rightarrow> world \<Rightarrow> exn option \<times> world" where
  "collect_events E w =
     (case get_checkpoint (stored E) of
        Inl e \<Rightarrow> (Some e, w)
      | Inr payload_checkpoint \<Rightarrow>
          (case get_time_dt (clock E) (cfg_time_start E) w of
             (time_start, w1) \<Rightarrow>
               let time_now = clock E (ticks w1);
                   w2 = tick w1
               in (case choose_start (clock E) time_start payload_checkpoint time_now w2 of
                     Inl e \<Rightarrow> (Some e, w2)
                   | Inr (time_start', w3) \<Rightarrow>
                       (case plan_windows time_start' time_now of
                          Inl e \<Rightarrow> (Some e, w3)
                        | Inr wins \<Rightarrow>
                            collect_loop E time_start' (PDatetime time_now) wins w3))))"

section \<open>Sample runs\<close>

text \<open>
  A clock that reads 2024-01-10 00:00:00 throughout, an empty history, a store that
  accepts every write, and a vendor that answers every window with the same body.
\<close>

definition ex_now :: int where
  "ex_now = days_from_civil 2024 1 10 * DAY_US"

definition ex_clock :: "nat \<Rightarrow> int" where
  "ex_clock k = ex_now"

definition ex_world :: world where
  "ex_world = \<lparr>journal = [], ticks = 0\<rparr>"

definition ex_put :: "pyval \<Rightarrow> exn option" where
  "ex_put p = None"

definition ex_put_fails :: "pyval \<Rightarrow> exn option" where
  "ex_put_fails p = Some (HostError False)"

definition ex_env :: "exn + pyval \<Rightarrow> pyval \<Rightarrow> response \<Rightarrow> env" where
  "ex_env st cfg resp =
     \<lparr>clock = ex_clock, stored = st, cfg_time_start = cfg,
      post = (\<lambda>from_lp to_lp. Response 200 [] (Inr resp)), put = ex_put\<rparr>"

definition ex_record :: "int \<Rightarrow> string \<times> (string \<times> pyval) list" where
  "ex_record k =
     (''Event'' @ show_int k,
      [(''Time'', PStr ''2024-01-09 12:00:00''), (''Username'', PStr ''user@example.com''),
       (''Action'', PStr ''Log in'')])"

definition ex_response :: "string \<Rightarrow> nat \<Rightarrow> response" where
  "ex_response st n = \<lparr>status = st, data = map (\<lambda>k. ex_record (int k + 1)) [0 ..< n]\<rparr>"

text \<open>A stored record whose three fields are epoch strings, as \<open>save_checkpoint\<close> writes them.\<close>

definition ex_checkpoint :: pyval where
  "ex_checkpoint =
     PDict [(''time_curr'', PStr ''1704801600.0''), (''time_start'', PStr ''1704758400.0''),
            (''time_end'', PStr ''1704844800.0'')]"




section \<open>Properties\<close>

subsection \<open>Arithmetic on the time line\<close>

lemma div_bounds:
  fixes a D :: int
  assumes "0 < D"
  shows "a div D * D \<le> a" and "a < (a div D + 1) * D"
proof -
  have eq: "a = a div D * D + a mod D" by simp
  have "0 \<le> a mod D" "a mod D < D" using assms by simp_all
  with eq show "a div D * D \<le> a" by linarith
  have "(a div D + 1) * D = a div D * D + D" by (simp add: algebra_simps)
  with eq \<open>a mod D < D\<close> show "a < (a div D + 1) * D" by linarith
qed

lemma DAY_US_pos: "0 < DAY_US"
  by (simp add: DAY_US_def)

lemma USEC_pos: "0 < USEC"
  by (simp add: USEC_def)

lemma USEC_less_DAY: "2 * USEC < DAY_US"
  by (simp add: DAY_US_def USEC_def)

lemma day_incr_cases: "day_incr d = 1 \<or> day_incr d = 3"
  by (simp add: day_incr_def)


subsection \<open>The checkpoint store adapter\<close>

lemma py_str_dict_shape: "\<exists>r. py_str (PDict kvs) = CHR ''{'' # r @ ''}''"
  by (simp add: py_str_def)

lemma strip_braces: "strip (CHR ''{'' # r @ ''}'') = CHR ''{'' # r @ ''}''"
  by (simp add: strip_def is_space_def)

lemma float_of_string_dict: "float_of_string (py_str (PDict kvs)) = Inl ValueError"
proof -
  obtain r where r: "py_str (PDict kvs) = CHR ''{'' # r @ ''}''"
    using py_str_dict_shape by blast
  show ?thesis
    unfolding r float_of_string_def strip_braces
    by (simp add: split_sign_def is_digit_def)
qed

lemma check_float_dict: "check_float (PDict kvs) = False"
  by (simp add: check_float_def float_of_string_dict)

lemma check_digit_dict: "check_digit (PDict kvs) = False"
  by (simp add: check_digit_def)

text \<open>
  Whatever a stored mapping holds, \<open>get_checkpoint\<close> answers None: a failed field check
  is caught and answered with None, and so is a passed one.
\<close>

lemma get_checkpoint_dict: "get_checkpoint (Inr (PDict kvs)) = Inr PNone"
  by (simp add: get_checkpoint_def check_float_dict check_digit_dict bind_exn_def
      split: sum.splits)

text \<open>A bare number is upgraded to the three-field shape.\<close>

lemma get_checkpoint_legacy:
  "check_digit v \<or> check_float v \<Longrightarrow>
   get_checkpoint (Inr v) = Inr (PDict [(STR_TCURR, PNone), (STR_TSTART, v), (STR_TEND, PNone)])"
  by (simp add: get_checkpoint_def)

text \<open>
  When \<open>prepare_time_value\<close> fails it fails with AttributeError: the exceptions raised
  inside its \<^verbatim>\<open>try\<close> are builtin ones, which have no \<^verbatim>\<open>message\<close>.
\<close>

lemma float_of_string_error: "float_of_string s = Inl e \<Longrightarrow> e = ValueError"
  unfolding float_of_string_def Let_def
  by (simp split: prod.splits list.splits if_splits)

lemma prepare_time_value_error:
  assumes "prepare_time_value v f = Inl e"
  shows "e = AttributeError"
proof -
  define body where "body = (if check_digit v then Inr v
            else if check_datetime v then py_timestamp v
            else bind_exn (float_of_string (py_str v)) (\<lambda>f.
                   if f \<noteq> 0 then Inr (PFloat f) else Inl PlainException))"
  have nomsg: "\<not> has_message x" if "body = Inl x" for x
    using that unfolding body_def
    by (auto simp: bind_exn_def py_timestamp_def check_datetime_def
        split: if_splits sum.splits pyval.splits dest: float_of_string_error)
  have "prepare_time_value v f =
          (case body of Inl e \<Rightarrow> bind_exn (read_message e) (\<lambda>_. Inl IOError)
           | Inr v \<Rightarrow> Inr (PStr (py_str v)))"
    unfolding prepare_time_value_def body_def ..
  with assms nomsg show ?thesis
    by (cases body) (auto simp: bind_exn_def read_message_def)
qed

text \<open>
  Claim C1 says that a stored mapping whose \<open>time_curr\<close>, \<open>time_start\<close> and \<open>time_end\<close>
  are all present and all normalizable is returned by \<open>get_checkpoint\<close>. On the sample
  record every field check passes, and the function still returns None: after the
  checks, line 215 returns None where the record was to be returned.
\<close>

theorem valid_checkpoint_record_dropped:
  "checkpoint_fields ex_checkpoint = Inr () \<and> get_checkpoint (Inr ex_checkpoint) = Inr PNone"
  by code_simp

text \<open>
  Claim C8 says that \<open>get_checkpoint\<close> never raises on a malformed stored value. A
  stored value that is neither a number nor a mapping raises AttributeError: the
  \<^verbatim>\<open>try\<close> of the field checks fails on \<^verbatim>\<open>state_payload.get\<close>, and its handler calls
  \<^verbatim>\<open>state_payload.get\<close> again to format the warning.
\<close>

theorem get_checkpoint_raises_on_wrong_type:
  "get_checkpoint (Inr (PStr ''abc'')) = Inl AttributeError
   \<and> get_checkpoint (Inr (PList [PInt 1])) = Inl AttributeError"
  by code_simp

text \<open>The same happens when nothing is stored yet and the store answers None.\<close>

lemma get_checkpoint_absent: "get_checkpoint (Inr PNone) = Inl AttributeError"
  by code_simp

text \<open>
  Claim C9 says that a failing \<open>save_checkpoint\<close> raises IOError and nothing else. With
  a time value that cannot be normalized, and with a store write that raises an
  exception without a \<^verbatim>\<open>message\<close> attribute, the exception that leaves
  \<open>save_checkpoint\<close> is AttributeError: both handlers read \<^verbatim>\<open>e.message\<close> while they
  build the IOError.
\<close>

theorem save_checkpoint_raises_AttributeError:
  "save_checkpoint ex_put (PStr ''abc'') (PDatetime (time_default ex_now)) (PDatetime ex_now) ex_world
     = (Some AttributeError, ex_world)
   \<and> save_checkpoint ex_put_fails (PStr ''1704801600.000000'') (PDatetime (time_default ex_now))
       (PDatetime ex_now) ex_world
     = (Some AttributeError, ex_world)"
  by code_simp

subsection \<open>The window planner\<close>

text \<open>
  With an operator start and any non-empty checkpoint, line 421 subtracts a datetime
  from the checkpoint value and compares the result with 0: a TypeError, whatever the
  checkpoint holds.
\<close>

lemma choose_start_both_present:
  assumes "py_truthy payload_checkpoint"
  shows "choose_start now (PDatetime t) payload_checkpoint time_now w = Inl TypeError"
  using assms
  by (cases payload_checkpoint) (simp_all add: choose_start_def bind_exn_def)

text \<open>Line 429 cannot subtract None from \<open>time_now\<close>.\<close>

lemma plan_windows_None: "plan_windows PNone time_now = Inl TypeError"
  by (simp add: plan_windows_def bind_exn_def)

lemma time_default_trunc: "time_default t = t - DAY_US - t mod USEC"
proof -
  have "(t - DAY_US) mod USEC = t mod USEC"
    unfolding DAY_US_def USEC_def
    using mod_mult_self1 [of t "- 86400" "1000000"] by simp
  then show ?thesis by (simp add: time_default_def)
qed

lemma default_span: "(t - time_default t) div DAY_US = 1"
proof -
  have "0 \<le> t mod USEC" "t mod USEC < USEC" using USEC_pos by simp_all
  then have r: "0 \<le> t mod USEC" "t mod USEC < DAY_US"
    using USEC_less_DAY by linarith+
  have "t - time_default t = DAY_US + t mod USEC"
    by (simp add: time_default_trunc)
  then have "(t - time_default t) div DAY_US = (DAY_US + t mod USEC) div DAY_US"
    by simp
  also have "\<dots> = t mod USEC div DAY_US + 1"
    using DAY_US_pos by simp
  also have "\<dots> = 1"
    using r by (simp add: div_pos_pos_trivial)
  finally show ?thesis .
qed

lemma py_range_2_1: "py_range 2 1 = [0, 1]"
  by (simp add: py_range_def upt_rec)

lemma py_range_11_3: "py_range 11 3 = [0, 3, 6, 9]"
  by (simp add: py_range_def upt_rec)

lemma default_windows:
  "windows (time_default t) t =
     [(time_default t, time_default t + DAY_US - USEC), (time_default t + DAY_US, t)]"
proof -
  have "0 \<le> t mod USEC" "t mod USEC < USEC" using USEC_pos by simp_all
  then have a: "\<not> t < time_default t + DAY_US - USEC" "t < time_default t + DAY_US + DAY_US - USEC"
    unfolding time_default_trunc using USEC_less_DAY USEC_pos by linarith+
  show ?thesis
    unfolding windows_def Let_def default_span
    using a by (simp add: day_incr_def py_range_2_1)
qed

lemma ten_day_windows:
  assumes "(time_now - time_start) div DAY_US = 10"
  shows "windows time_start time_now =
     [(time_start, time_start + 3 * DAY_US - USEC),
      (time_start + 3 * DAY_US, time_start + 6 * DAY_US - USEC),
      (time_start + 6 * DAY_US, time_start + 9 * DAY_US - USEC),
      (time_start + 9 * DAY_US, time_now)]"
proof -
  have b: "10 * DAY_US \<le> time_now - time_start" "time_now - time_start < 11 * DAY_US"
    using div_bounds [OF DAY_US_pos, of "time_now - time_start"] assms by simp_all
  have c: "\<not> time_now < time_start + 3 * DAY_US - USEC"
       "\<not> time_now < time_start + 3 * DAY_US + 3 * DAY_US - USEC"
       "\<not> time_now < time_start + 6 * DAY_US + 3 * DAY_US - USEC"
       "time_now < time_start + 9 * DAY_US + 3 * DAY_US - USEC"
    using b USEC_pos USEC_less_DAY DAY_US_pos by simp_all
  show ?thesis
    unfolding windows_def Let_def assms
    using c by (simp add: day_incr_def py_range_11_3)
qed

lemma day_incr_pos: "0 < day_incr d"
  by (simp add: day_incr_def)

lemma windows_length:
  "length (windows ts now) =
     nat (((now - ts) div DAY_US + day_incr ((now - ts) div DAY_US))
          div day_incr ((now - ts) div DAY_US))"
  by (simp add: windows_def py_range_def Let_def)

lemma windows_nth:
  assumes "k < length (windows ts now)"
  shows "windows ts now ! k =
     (ts + int k * day_incr ((now - ts) div DAY_US) * DAY_US,
      if now < ts + int k * day_incr ((now - ts) div DAY_US) * DAY_US
                 + day_incr ((now - ts) div DAY_US) * DAY_US - USEC
      then now
      else ts + int k * day_incr ((now - ts) div DAY_US) * DAY_US
             + day_incr ((now - ts) div DAY_US) * DAY_US - USEC)"
  using assms by (simp add: windows_def py_range_def Let_def)

lemma window_index_le:
  assumes "k < length (windows ts now)"
  shows "int k * day_incr ((now - ts) div DAY_US) \<le> (now - ts) div DAY_US"
proof -
  define d where "d = (now - ts) div DAY_US"
  define c where "c = day_incr d"
  have c: "0 < c" by (simp add: c_def day_incr_pos)
  from assms have "int k < (d + c) div c"
    by (simp add: windows_length d_def c_def)
  then have "int k + 1 \<le> (d + c) div c" by simp
  then have "(int k + 1) * c \<le> (d + c) div c * c"
    using c by (intro mult_right_mono) simp_all
  also have "\<dots> \<le> d + c" by (rule div_bounds(1) [OF c])
  finally have "int k * c \<le> d" by (simp add: algebra_simps)
  then show ?thesis by (simp add: c_def d_def)
qed

lemma window_start_le_now:
  assumes "k < length (windows ts now)"
  shows "ts + int k * day_incr ((now - ts) div DAY_US) * DAY_US \<le> now"
proof -
  have "int k * day_incr ((now - ts) div DAY_US) * DAY_US \<le> (now - ts) div DAY_US * DAY_US"
    using window_index_le [OF assms] DAY_US_pos by (intro mult_right_mono) simp_all
  also have "\<dots> \<le> now - ts" by (rule div_bounds(1) [OF DAY_US_pos])
  finally show ?thesis by simp
qed

lemma chunk_longer_than_second: "USEC < day_incr d * DAY_US"
  using day_incr_cases [of d] USEC_less_DAY USEC_pos by auto

lemma window_bounds:
  assumes "k < length (windows ts now)"
  shows "fst (windows ts now ! k) \<le> snd (windows ts now ! k)"
    and "snd (windows ts now ! k) \<le> now"
    and "snd (windows ts now ! k) + USEC
           \<le> fst (windows ts now ! k) + day_incr ((now - ts) div DAY_US) * DAY_US"
  using window_start_le_now [OF assms] chunk_longer_than_second [of "(now - ts) div DAY_US"]
  by (simp_all add: windows_nth [OF assms])

lemma window_next_start:
  assumes "Suc k < length (windows ts now)"
  shows "fst (windows ts now ! Suc k)
           = fst (windows ts now ! k) + day_incr ((now - ts) div DAY_US) * DAY_US"
proof -
  from assms have k: "k < length (windows ts now)" by simp
  show ?thesis by (simp add: windows_nth [OF assms] windows_nth [OF k] algebra_simps)
qed

text \<open>
  Claim C2 says that without an operator start and with a checkpoint, collection
  starts at the checkpoint's \<open>time_start\<close>. The only checkpoint \<open>get_checkpoint\<close> ever
  returns is the upgraded legacy record; line 413 hands the whole mapping, not its
  \<open>time_start\<close> field, to \<open>get_time_dt\<close>, which answers None, and line 429 then fails
  with a TypeError before any window is planned.
\<close>

theorem checkpoint_only_run_fails:
  "get_checkpoint (stored (ex_env (Inr (PInt 1704758400)) PNone (ex_response ''OK'' 0)))
     = Inr (PDict [(''time_curr'', PNone), (''time_start'', PInt 1704758400), (''time_end'', PNone)])
   \<and> collect_events (ex_env (Inr (PInt 1704758400)) PNone (ex_response ''OK'' 0)) ex_world
     = (Some TypeError, tick ex_world)"
  by code_simp

text \<open>
  Claim C3 says that with an operator start and a newer checkpoint, collection starts
  at the checkpoint's \<open>time_start\<close> and window generation is reached. The operator
  start below is accepted, the stored checkpoint is newer, and the run ends at line 421
  with a TypeError.
\<close>

theorem newer_checkpoint_run_fails:
  "get_time_dt ex_clock (PStr ''1704758400'') ex_world = (PDatetime 1704758400000000, tick ex_world)
   \<and> get_checkpoint (stored (ex_env (Inr (PInt 1704800000)) (PStr ''1704758400'') (ex_response ''OK'' 0)))
     = Inr (PDict [(''time_curr'', PNone), (''time_start'', PInt 1704800000), (''time_end'', PNone)])
   \<and> collect_events (ex_env (Inr (PInt 1704800000)) (PStr ''1704758400'') (ex_response ''OK'' 0)) ex_world
     = (Some TypeError, tick (tick ex_world))"
  by code_simp

text \<open>
  Claim C4 says that without operator start and checkpoint the start is now minus 24
  hours, truncated to whole seconds, and that for now = 2024-01-10 exactly one window
  [2024-01-09, 2024-01-10] is planned. The second half fails: two windows are planned.
\<close>

theorem single_default_window_counterexample:
  "time_default ex_now = days_from_civil 2024 1 9 * DAY_US
   \<and> plan_windows (PDatetime (time_default ex_now)) ex_now
       \<noteq> Inr [(days_from_civil 2024 1 9 * DAY_US, ex_now)]
   \<and> length (windows (time_default ex_now) ex_now) = 2"
  by code_simp

text \<open>
  Claim C4 as amended: without operator start and checkpoint the start is now minus 24
  hours with the sub-second part truncated, and two windows are planned: from the start
  to one second before the start plus 24 hours, and from the start plus 24 hours to
  now.
\<close>

theorem default_start_two_windows:
  assumes "\<not> py_truthy time_start" and "\<not> py_truthy payload_checkpoint"
  shows "choose_start now time_start payload_checkpoint time_now w
           = Inr (PDatetime (time_default time_now), w)
       \<and> time_default time_now = time_now - DAY_US - time_now mod USEC
       \<and> plan_windows (PDatetime (time_default time_now)) time_now
           = Inr [(time_default time_now, time_default time_now + DAY_US - USEC),
                  (time_default time_now + DAY_US, time_now)]"
  using assms
  by (simp add: choose_start_def plan_windows_def bind_exn_def default_windows
      time_default_trunc [symmetric])

theorem default_start_two_windows_witness:
  "\<not> py_truthy PNone
   \<and> choose_start ex_clock PNone PNone ex_now ex_world
       = Inr (PDatetime (time_default ex_now), ex_world)
   \<and> plan_windows (PDatetime (time_default ex_now)) ex_now
       = Inr [(time_default ex_now, time_default ex_now + DAY_US - USEC),
              (time_default ex_now + DAY_US, ex_now)]
   \<and> get_time_lp (PDatetime (time_default ex_now)) = Inr ''2024-01-09 00:00:00''
   \<and> get_time_lp (PDatetime (time_default ex_now + DAY_US - USEC)) = Inr ''2024-01-09 23:59:59''
   \<and> get_time_lp (PDatetime (time_default ex_now + DAY_US)) = Inr ''2024-01-10 00:00:00''
   \<and> get_time_lp (PDatetime ex_now) = Inr ''2024-01-10 00:00:00''"
proof -
  have none: "\<not> py_truthy PNone" by simp
  have wire:
    "get_time_lp (PDatetime (time_default ex_now)) = Inr ''2024-01-09 00:00:00''"
    "get_time_lp (PDatetime (time_default ex_now + DAY_US - USEC)) = Inr ''2024-01-09 23:59:59''"
    "get_time_lp (PDatetime (time_default ex_now + DAY_US)) = Inr ''2024-01-10 00:00:00''"
    "get_time_lp (PDatetime ex_now) = Inr ''2024-01-10 00:00:00''"
    by code_simp+
  from default_start_two_windows [OF none none, of ex_clock ex_now ex_world]
  have "choose_start ex_clock PNone PNone ex_now ex_world
          = Inr (PDatetime (time_default ex_now), ex_world)"
    and "plan_windows (PDatetime (time_default ex_now)) ex_now
          = Inr [(time_default ex_now, time_default ex_now + DAY_US - USEC),
                 (time_default ex_now + DAY_US, ex_now)]"
    by blast+
  with none wire show ?thesis by blast
qed



text \<open>
  Claim C10: every planned window has its \<open>from\<close> not after its \<open>to\<close> and its \<open>to\<close> not
  after now, and each window begins after the previous one has begun and ended. (When
  the start is after now, no window is planned.)
\<close>

theorem windows_ordered:
  "(\<forall>w \<in> set (windows time_start time_now). fst w \<le> snd w \<and> snd w \<le> time_now)
   \<and> (\<forall>k. Suc k < length (windows time_start time_now) \<longrightarrow>
          fst (windows time_start time_now ! k) < fst (windows time_start time_now ! Suc k)
        \<and> snd (windows time_start time_now ! k) < fst (windows time_start time_now ! Suc k))"
proof (intro conjI ballI allI impI)
  fix w assume "w \<in> set (windows time_start time_now)"
  then obtain k where k: "k < length (windows time_start time_now)"
    and w: "w = windows time_start time_now ! k"
    by (auto simp: in_set_conv_nth)
  show "fst w \<le> snd w" "snd w \<le> time_now"
    using window_bounds [OF k] by (simp_all add: w)
next
  fix k assume sk: "Suc k < length (windows time_start time_now)"
  then have k: "k < length (windows time_start time_now)" by simp
  show "snd (windows time_start time_now ! k) < fst (windows time_start time_now ! Suc k)"
    using window_bounds(3) [OF k] window_next_start [OF sk] USEC_pos by linarith
  show "fst (windows time_start time_now ! k) < fst (windows time_start time_now ! Suc k)"
    using window_bounds(1,3) [OF k] window_next_start [OF sk] USEC_pos by linarith
qed

theorem windows_ordered_witness:
  "length (windows (ex_now - 10 * DAY_US) ex_now) = 4
   \<and> list_all (\<lambda>w. fst w \<le> snd w \<and> snd w \<le> ex_now) (windows (ex_now - 10 * DAY_US) ex_now)
   \<and> fst (windows (ex_now - 10 * DAY_US) ex_now ! 0) < fst (windows (ex_now - 10 * DAY_US) ex_now ! 1)
   \<and> snd (windows (ex_now - 10 * DAY_US) ex_now ! 0) < fst (windows (ex_now - 10 * DAY_US) ex_now ! 1)
   \<and> snd (windows (ex_now - 10 * DAY_US) ex_now ! 1) < fst (windows (ex_now - 10 * DAY_US) ex_now ! 2)
   \<and> snd (windows (ex_now - 10 * DAY_US) ex_now ! 2) < fst (windows (ex_now - 10 * DAY_US) ex_now ! 3)"
proof -
  let ?ws = "windows (ex_now - 10 * DAY_US) ex_now"
  have "(ex_now - (ex_now - 10 * DAY_US)) div DAY_US = 10"
    by (simp add: DAY_US_def)
  then have len: "length ?ws = 4"
    by (simp add: ten_day_windows)
  from windows_ordered [of "ex_now - 10 * DAY_US" ex_now]
  have a: "\<forall>w \<in> set ?ws. fst w \<le> snd w \<and> snd w \<le> ex_now"
    and b: "\<forall>k. Suc k < length ?ws \<longrightarrow>
               fst (?ws ! k) < fst (?ws ! Suc k) \<and> snd (?ws ! k) < fst (?ws ! Suc k)"
    by blast+
  from a have "list_all (\<lambda>w. fst w \<le> snd w \<and> snd w \<le> ex_now) ?ws"
    by (simp only: list_all_iff)
  moreover from b [rule_format, of 0] b [rule_format, of 1] b [rule_format, of 2] len
  have "fst (?ws ! 0) < fst (?ws ! 1)" "snd (?ws ! 0) < fst (?ws ! 1)"
    "snd (?ws ! 1) < fst (?ws ! 2)" "snd (?ws ! 2) < fst (?ws ! 3)"
    by (simp_all add: numeral_2_eq_2 numeral_3_eq_3)
  ultimately show ?thesis using len by blast
qed

subsection \<open>The collection driver\<close>



lemma get_time_lp_datetime: "get_time_lp (PDatetime dt) = Inr (strftime_lp dt)"
  by (simp add: get_time_lp_def)




















text \<open>
  Claim C7 says that every decoded response whose status is not "OK" ends the run
  before a record of it is emitted. The test of line 458 is a substring test: the
  status "NOK" passes it, the record is emitted and a checkpoint is written.
\<close>

theorem non_ok_status_counterexample:
  "status (ex_response ''NOK'' 1) \<noteq> ''OK''
   \<and> fst (collect_window (ex_env (Inr ex_checkpoint) PNone (ex_response ''NOK'' 1))
            (PDatetime (time_default ex_now)) (PDatetime ex_now)
            (time_default ex_now, time_default ex_now + DAY_US - USEC) ex_world) = None
   \<and> length (events (snd (collect_window (ex_env (Inr ex_checkpoint) PNone (ex_response ''NOK'' 1))
            (PDatetime (time_default ex_now)) (PDatetime ex_now)
            (time_default ex_now, time_default ex_now + DAY_US - USEC) ex_world))) = 1
   \<and> length (writes (snd (collect_window (ex_env (Inr ex_checkpoint) PNone (ex_response ''NOK'' 1))
            (PDatetime (time_default ex_now)) (PDatetime ex_now)
            (time_default ex_now, time_default ex_now + DAY_US - USEC) ex_world))) = 1"
  by code_simp

text \<open>
  Claim C7 as amended: a decoded response whose status does not contain "OK" ends the
  run with exit status 1; no record of it is emitted, no checkpoint is written, and no
  later window is fetched.
\<close>

theorem non_ok_status_terminates:
  assumes "post E (strftime_lp (fst win)) (strftime_lp (snd win))
             = Response status_code text (Inr resp_ev_json)"
    and "\<not> str_contains ''OK'' (status resp_ev_json)"
  shows "collect_window E time_start time_now win w = (Some (SystemExit 1), w)
       \<and> collect_loop E time_start time_now (win # rest) w = (Some (SystemExit 1), w)"
proof -
  have "collect_window E time_start time_now win w = (Some (SystemExit 1), w)"
    using assms by (simp add: collect_window_def get_time_lp_datetime bind_exn_def)
  then show ?thesis by simp
qed

theorem non_ok_status_terminates_witness:
  "\<not> str_contains ''OK'' (status (ex_response ''FAIL'' 3))
   \<and> collect_window (ex_env (Inr ex_checkpoint) PNone (ex_response ''FAIL'' 3))
        (PDatetime (time_default ex_now)) (PDatetime ex_now)
        (time_default ex_now, time_default ex_now + DAY_US - USEC) ex_world
       = (Some (SystemExit 1), ex_world)
   \<and> collect_loop (ex_env (Inr ex_checkpoint) PNone (ex_response ''FAIL'' 3))
        (PDatetime (time_default ex_now)) (PDatetime ex_now)
        [(time_default ex_now, time_default ex_now + DAY_US - USEC),
         (time_default ex_now + DAY_US, ex_now)] ex_world
       = (Some (SystemExit 1), ex_world)"
proof -
  let ?E = "ex_env (Inr ex_checkpoint) PNone (ex_response ''FAIL'' 3)"
  let ?win = "(time_default ex_now, time_default ex_now + DAY_US - USEC)"
  have st: "\<not> str_contains ''OK'' (status (ex_response ''FAIL'' 3))"
    by (simp add: ex_response_def)
  have post: "post ?E (strftime_lp (fst ?win)) (strftime_lp (snd ?win))
                = Response 200 [] (Inr (ex_response ''FAIL'' 3))"
    by (simp add: ex_env_def)
  from non_ok_status_terminates [OF post st] st show ?thesis by blast
qed

end
